theory Spec2Isabelle
  imports Main "HOL-Library.Word"
begin

unbundle bit_operations_syntax

section \<open>The Cadence TTC PWM driver (pwm-cadence.c)\<close>

text \<open>
  A shallow embedding of \<^verbatim>\<open>cadence_pwm_config\<close> and \<^verbatim>\<open>cadence_pwm_disable\<close>.
  C \<^verbatim>\<open>int\<close> and \<^verbatim>\<open>uint32_t\<close> values are 32-bit words (read with \<open>sint\<close> where the C type
  is signed), the 64-bit intermediates are 64-bit words, the device registers are a
  memory from byte offsets (relative to the mapped base) to 32-bit words, and the
  debug log lines are left out since they change no state.
\<close>

type_synonym u32 = "32 word"
type_synonym u64 = "64 word"

subsection \<open>Register description\<close>

datatype cpwm_register =
    CPWM_CLK_CTRL
  | CPWM_COUNTER_CTRL
  | CPWM_COUNTER_VALUE
  | CPWM_INTERVAL_COUNTER
  | CPWM_MATCH_1_COUNTER
  | CPWM_MATCH_2_COUNTER
  | CPWM_MATCH_3_COUNTER
  | CPWM_INTERRUPT_REGISTER
  | CPWM_INTERRUPT_ENABLE
  | CPWM_EVENT_CONTROL_TIMER
  | CPWM_EVENT_REGISTER

text \<open>The numeric value of each enumerator.\<close>

fun reg_num :: "cpwm_register \<Rightarrow> nat" where
  "reg_num CPWM_CLK_CTRL = 0"
| "reg_num CPWM_COUNTER_CTRL = 1"
| "reg_num CPWM_COUNTER_VALUE = 2"
| "reg_num CPWM_INTERVAL_COUNTER = 3"
| "reg_num CPWM_MATCH_1_COUNTER = 4"
| "reg_num CPWM_MATCH_2_COUNTER = 5"
| "reg_num CPWM_MATCH_3_COUNTER = 6"
| "reg_num CPWM_INTERRUPT_REGISTER = 7"
| "reg_num CPWM_INTERRUPT_ENABLE = 8"
| "reg_num CPWM_EVENT_CONTROL_TIMER = 9"
| "reg_num CPWM_EVENT_REGISTER = 10"

definition CPWM_CLK_SRC_EXTERNAL :: u32 where
  "CPWM_CLK_SRC_EXTERNAL = 0x20"

definition CPWM_CLK_PRESCALE_SHIFT :: nat where
  "CPWM_CLK_PRESCALE_SHIFT = 1"

definition CPWM_CLK_PRESCALE_MASK :: u32 where
  "CPWM_CLK_PRESCALE_MASK = push_bit 1 15"

definition CPWM_CLK_PRESCALE_ENABLE :: u32 where
  "CPWM_CLK_PRESCALE_ENABLE = 1"

definition CPWM_COUNTER_CTRL_WAVE_POL :: u32 where
  "CPWM_COUNTER_CTRL_WAVE_POL = 0x40"

definition CPWM_COUNTER_CTRL_WAVE_DISABLE :: u32 where
  "CPWM_COUNTER_CTRL_WAVE_DISABLE = 0x20"

definition CPWM_COUNTER_CTRL_RESET :: u32 where
  "CPWM_COUNTER_CTRL_RESET = 0x10"

definition CPWM_COUNTER_CTRL_MATCH_ENABLE :: u32 where
  "CPWM_COUNTER_CTRL_MATCH_ENABLE = 0x8"

definition CPWM_COUNTER_CTRL_DECREMENT_ENABLE :: u32 where
  "CPWM_COUNTER_CTRL_DECREMENT_ENABLE = 0x4"

definition CPWM_COUNTER_CTRL_INTERVAL_ENABLE :: u32 where
  "CPWM_COUNTER_CTRL_INTERVAL_ENABLE = 0x2"

definition CPWM_COUNTER_CTRL_COUNTING_DISABLE :: u32 where
  "CPWM_COUNTER_CTRL_COUNTING_DISABLE = 0x1"

definition CPWM_NUM_PWM :: nat where
  "CPWM_NUM_PWM = 3"

subsection \<open>Clocks, channels and the chip\<close>

text \<open>
  Modelled from the spec: the clock handles of the kernel's clock framework
  (\<^verbatim>\<open>clk_prepare_enable\<close>, \<^verbatim>\<open>clk_disable_unprepare\<close>, \<^verbatim>\<open>clk_get_rate\<close>), which are not
  part of this source file. A handle supports prepare+enable (which may fail with a
  non-zero error code and then leaves the clock as it was), disable+unprepare, and
  get-current-rate. \<open>clk_rate\<close> is the \<^verbatim>\<open>unsigned long\<close> rate as the C code sees it after
  the cast to \<^verbatim>\<open>int64_t\<close> (zero-extended where \<^verbatim>\<open>unsigned long\<close> has 32 bits),
  \<open>clk_enable_errno\<close> the code the next prepare+enable returns (0 is success) and
  \<open>clk_enable_count\<close> how many enables are outstanding.
\<close>

record clk =
  clk_rate :: u64
  clk_enable_errno :: int
  clk_enable_count :: nat

definition clk_prepare_enable :: "clk \<Rightarrow> int \<times> clk" where
  "clk_prepare_enable k =
     (if clk_enable_errno k \<noteq> 0 then (clk_enable_errno k, k)
      else (0, k\<lparr>clk_enable_count := clk_enable_count k + 1\<rparr>))"

definition clk_disable_unprepare :: "clk \<Rightarrow> clk" where
  "clk_disable_unprepare k = k\<lparr>clk_enable_count := clk_enable_count k - 1\<rparr>"

definition clk_get_rate :: "clk \<Rightarrow> u64" where
  "clk_get_rate k = clk_rate k"

datatype pwm_polarity = PWM_POLARITY_NORMAL | PWM_POLARITY_INVERSED

record cadence_pwm_pwm =
  clk :: clk
  useExternalClk :: bool
  polarity :: pwm_polarity

text \<open>
  \<open>regs\<close> is the device memory behind \<^verbatim>\<open>base\<close>, indexed by byte offset; \<open>pwms\<close> is the
  array of \<^verbatim>\<open>CPWM_NUM_PWM\<close> channels.
\<close>

record cadence_pwm_chip =
  regs :: "nat \<Rightarrow> u32"
  pwms :: "cadence_pwm_pwm list"

text \<open>
  The channel index \<open>h\<close> is \<^verbatim>\<open>pwm->hwpwm\<close>; the PWM framework only passes indices below
  \<^verbatim>\<open>npwm = CPWM_NUM_PWM\<close>, and the C code indexes \<^verbatim>\<open>pwms[h]\<close> without a check.
\<close>

definition valid_channel :: "cadence_pwm_chip \<Rightarrow> nat \<Rightarrow> bool" where
  "valid_channel cpwm h = (length (pwms cpwm) = CPWM_NUM_PWM \<and> h < CPWM_NUM_PWM)"

subsection \<open>Register access\<close>

definition cpwm_register_address :: "nat \<Rightarrow> cpwm_register \<Rightarrow> nat" where
  "cpwm_register_address pwm reg = 4 * (3 * reg_num reg + pwm)"

definition cpwm_read :: "cadence_pwm_chip \<Rightarrow> nat \<Rightarrow> cpwm_register \<Rightarrow> u32" where
  "cpwm_read cpwm pwm reg = regs cpwm (cpwm_register_address pwm reg)"

definition cpwm_write ::
  "cadence_pwm_chip \<Rightarrow> nat \<Rightarrow> cpwm_register \<Rightarrow> u32 \<Rightarrow> cadence_pwm_chip" where
  "cpwm_write cpwm pwm reg v =
     cpwm\<lparr>regs := (regs cpwm)(cpwm_register_address pwm reg := v)\<rparr>"

subsection \<open>The arithmetic of the configuration\<close>

text \<open>
  \<^verbatim>\<open>div64_u64(((int64_t)ns * (int64_t)clk_get_rate(clk)), 1000000000LL)\<close>, stored into an
  \<^verbatim>\<open>int\<close>: the 32-bit \<^verbatim>\<open>int\<close> is sign-extended, the product is taken in 64 bits (it
  wraps), the division is the unsigned 64-bit one, and the quotient is cut to 32 bits.
\<close>

definition ns_to_clocks64 :: "u32 \<Rightarrow> u64 \<Rightarrow> u64" where
  "ns_to_clocks64 ns rate = (scast ns * rate) div 1000000000"

definition ns_to_clocks :: "u32 \<Rightarrow> u64 \<Rightarrow> u32" where
  "ns_to_clocks ns rate = ucast (ns_to_clocks64 ns rate)"

text \<open>
  Modelled from the spec: \<^verbatim>\<open>ilog2\<close> of \<^verbatim>\<open>linux/log2.h\<close>, which is not part of this source
  file. For a 4-byte argument it is \<^verbatim>\<open>fls(n) - 1\<close> on the argument read as unsigned,
  where \<open>fls\<close> is the number of bits needed to represent its argument (0 for 0), so that
  \<open>ilog2 n\<close> is \<open>floor (log2 n)\<close> for \<open>n > 0\<close>.
\<close>

fun fls :: "nat \<Rightarrow> nat" where
  "fls n = (if n = 0 then 0 else Suc (fls (n div 2)))"

declare fls.simps [simp del]

definition ilog2 :: "u32 \<Rightarrow> int" where
  "ilog2 n = int (fls (unat n)) - 1"

text \<open>
  \<^verbatim>\<open>prescaler = ilog2(period_clocks) + 1 - 16; if (prescaler < 0) prescaler = 0;\<close>
\<close>

definition calc_prescaler :: "u32 \<Rightarrow> int" where
  "calc_prescaler period_clocks =
     (let prescaler = ilog2 period_clocks + 1 - 16
      in if prescaler < 0 then 0 else prescaler)"

text \<open>
  The update of the clock-control value \<open>x\<close>: the prescale field, then the clock-source
  bit.
\<close>

definition clk_ctrl_value :: "u32 \<Rightarrow> int \<Rightarrow> bool \<Rightarrow> u32" where
  "clk_ctrl_value x0 prescaler ext =
     (let x = (if prescaler = 0
               then x0 AND NOT (CPWM_CLK_PRESCALE_ENABLE OR CPWM_CLK_PRESCALE_MASK)
               else (x0 AND NOT CPWM_CLK_PRESCALE_MASK) OR
                    (CPWM_CLK_PRESCALE_ENABLE OR
                     (push_bit CPWM_CLK_PRESCALE_SHIFT (word_of_int (prescaler - 1))
                        AND CPWM_CLK_PRESCALE_MASK)))
      in if ext then x OR CPWM_CLK_SRC_EXTERNAL else x AND NOT CPWM_CLK_SRC_EXTERNAL)"

text \<open>\<^verbatim>\<open>(clocks >> prescaler) & 0xffff\<close> on the \<^verbatim>\<open>int\<close> \<open>clocks\<close> (an arithmetic shift).\<close>

definition count_value :: "u32 \<Rightarrow> int \<Rightarrow> u32" where
  "count_value clocks prescaler = signed_drop_bit (nat prescaler) clocks AND 0xffff"

text \<open>The counter-control value written back at the end.\<close>

definition counter_ctrl_value :: "u32 \<Rightarrow> pwm_polarity \<Rightarrow> u32" where
  "counter_ctrl_value counter_ctrl0 pol =
     (let counter_ctrl = counter_ctrl0 AND NOT CPWM_COUNTER_CTRL_DECREMENT_ENABLE;
          counter_ctrl = counter_ctrl OR (CPWM_COUNTER_CTRL_INTERVAL_ENABLE OR
                           CPWM_COUNTER_CTRL_RESET OR CPWM_COUNTER_CTRL_MATCH_ENABLE)
      in if pol = PWM_POLARITY_NORMAL
         then counter_ctrl OR CPWM_COUNTER_CTRL_WAVE_POL
         else counter_ctrl AND NOT CPWM_COUNTER_CTRL_WAVE_POL)"

subsection \<open>The operations\<close>

text \<open>
  The C functions return 0 or a negative error code: \<^verbatim>\<open>-EINVAL\<close> is \<open>InvalidArgument\<close>,
  the non-zero code of a failed \<^verbatim>\<open>clk_prepare_enable\<close> is \<open>ClockUnavailable\<close>.
\<close>

datatype error = InvalidArgument | ClockUnavailable int

text \<open>
  The clock calls act on the clock behind the pointer \<^verbatim>\<open>pwms[h].clk\<close>; \<open>set_clk\<close> stores
  the clock they return back into channel \<open>h\<close>.
\<close>

definition set_clk :: "cadence_pwm_chip \<Rightarrow> nat \<Rightarrow> clk \<Rightarrow> cadence_pwm_chip" where
  "set_clk cpwm h k = cpwm\<lparr>pwms := (pwms cpwm)[h := (pwms cpwm ! h)\<lparr>clk := k\<rparr>]\<rparr>"

definition cadence_pwm_config ::
  "cadence_pwm_chip \<Rightarrow> nat \<Rightarrow> u32 \<Rightarrow> u32 \<Rightarrow> (error + unit) \<times> cadence_pwm_chip" where
  "cadence_pwm_config cpwm0 h duty_ns period_ns =
     (let (ret, k) = clk_prepare_enable (clk (pwms cpwm0 ! h)) in
      if ret \<noteq> 0 then (Inl (ClockUnavailable ret), cpwm0)
      else
        let cpwm = set_clk cpwm0 h k in
        if period_ns <s 0 then (Inl InvalidArgument, cpwm)
        else
          let counter_ctrl = cpwm_read cpwm h CPWM_COUNTER_CTRL;
              cpwm = cpwm_write cpwm h CPWM_COUNTER_CTRL
                       (counter_ctrl OR CPWM_COUNTER_CTRL_COUNTING_DISABLE);
              period_clocks = ns_to_clocks period_ns (clk_get_rate (clk (pwms cpwm ! h)));
              prescaler = calc_prescaler period_clocks;
              x = cpwm_read cpwm h CPWM_CLK_CTRL;
              x = clk_ctrl_value x prescaler (useExternalClk (pwms cpwm ! h));
              cpwm = cpwm_write cpwm h CPWM_CLK_CTRL x;
              duty_clocks = ns_to_clocks duty_ns (clk_get_rate (clk (pwms cpwm ! h)));
              cpwm = cpwm_write cpwm h CPWM_INTERVAL_COUNTER
                       (count_value period_clocks prescaler);
              cpwm = cpwm_write cpwm h CPWM_MATCH_1_COUNTER
                       (count_value duty_clocks prescaler);
              counter_ctrl = counter_ctrl_value counter_ctrl (polarity (pwms cpwm ! h));
              cpwm = cpwm_write cpwm h CPWM_COUNTER_CTRL counter_ctrl
          in (Inr (), cpwm))"

definition cadence_pwm_disable :: "cadence_pwm_chip \<Rightarrow> nat \<Rightarrow> cadence_pwm_chip" where
  "cadence_pwm_disable cpwm h =
     (let x = cpwm_read cpwm h CPWM_COUNTER_CTRL;
          x = x OR (CPWM_COUNTER_CTRL_COUNTING_DISABLE OR CPWM_COUNTER_CTRL_WAVE_DISABLE);
          cpwm = cpwm_write cpwm h CPWM_COUNTER_CTRL x
      in set_clk cpwm h (clk_disable_unprepare (clk (pwms cpwm ! h))))"

subsection \<open>Concrete states used in the examples\<close>

text \<open>
  A chip with three channels on a running 50 MHz clock and all registers zero, and the
  same chip with a clock that cannot be enabled (\<^verbatim>\<open>-ENODEV\<close>).
\<close>

definition example_clk :: clk where
  "example_clk = \<lparr>clk_rate = 50000000, clk_enable_errno = 0, clk_enable_count = 0\<rparr>"

definition example_pwm :: cadence_pwm_pwm where
  "example_pwm = \<lparr>clk = example_clk, useExternalClk = False, polarity = PWM_POLARITY_NORMAL\<rparr>"

definition example_chip :: cadence_pwm_chip where
  "example_chip = \<lparr>regs = (\<lambda>_. 0), pwms = [example_pwm, example_pwm, example_pwm]\<rparr>"

definition dead_clk :: clk where
  "dead_clk = \<lparr>clk_rate = 50000000, clk_enable_errno = - 19, clk_enable_count = 0\<rparr>"

definition dead_pwm :: cadence_pwm_pwm where
  "dead_pwm = \<lparr>clk = dead_clk, useExternalClk = False, polarity = PWM_POLARITY_NORMAL\<rparr>"

definition dead_chip :: cadence_pwm_chip where
  "dead_chip = \<lparr>regs = (\<lambda>_. 0), pwms = [dead_pwm, dead_pwm, dead_pwm]\<rparr>"

section \<open>Basic facts\<close>

lemmas cpwm_consts =
  CPWM_CLK_SRC_EXTERNAL_def CPWM_CLK_PRESCALE_SHIFT_def CPWM_CLK_PRESCALE_MASK_def
  CPWM_CLK_PRESCALE_ENABLE_def CPWM_COUNTER_CTRL_WAVE_POL_def
  CPWM_COUNTER_CTRL_WAVE_DISABLE_def CPWM_COUNTER_CTRL_RESET_def
  CPWM_COUNTER_CTRL_MATCH_ENABLE_def CPWM_COUNTER_CTRL_DECREMENT_ENABLE_def
  CPWM_COUNTER_CTRL_INTERVAL_ENABLE_def CPWM_COUNTER_CTRL_COUNTING_DISABLE_def

subsection \<open>The most significant bit\<close>

lemma fls_0: "fls 0 = 0"
  by (subst fls.simps) simp

lemma fls_pos: "0 < n \<Longrightarrow> fls n = Suc (fls (n div 2))"
  by (subst fls.simps) simp

lemma fls_Suc_0: "fls (Suc 0) = 1"
  by (simp add: fls_pos fls_0)

lemma fls_1: "fls 1 = 1"
  by (simp add: fls_pos fls_0)

lemma fls_Bit0: "fls (numeral (Num.Bit0 k)) = Suc (fls (numeral k))"
  by (simp add: fls_pos)

lemma fls_Bit1: "fls (numeral (Num.Bit1 k)) = Suc (fls (numeral k))"
  by (simp add: fls_pos)

lemmas fls_num = fls_0 fls_1 fls_Suc_0 fls_Bit0 fls_Bit1

text \<open>A positive number lies between the two powers of two that \<open>fls\<close> names.\<close>

lemma fls_bounds: "0 < n \<Longrightarrow> 2 ^ (fls n - 1) \<le> n \<and> n < 2 ^ fls n"
proof (induction n rule: fls.induct)
  case (1 n)
  show ?case
  proof (cases "n div 2 = 0")
    case True
    with "1.prems" have "n = 1" by (simp add: div_eq_0_iff)
    then show ?thesis by (simp add: fls_Suc_0)
  next
    case False
    then have pos: "0 < n div 2" by simp
    from "1.IH" [OF _ pos] "1.prems"
    have ih: "2 ^ (fls (n div 2) - 1) \<le> n div 2" "n div 2 < 2 ^ fls (n div 2)"
      by simp_all
    have f: "fls n = Suc (fls (n div 2))" using "1.prems" by (rule fls_pos)
    have "0 < fls (n div 2)" using pos by (simp add: fls_pos)
    then have h: "fls (n div 2) = Suc (fls (n div 2) - 1)" by simp
    have "(2::nat) ^ fls (n div 2) = 2 * 2 ^ (fls (n div 2) - 1)"
      by (subst h) simp
    with ih have "2 ^ fls (n div 2) \<le> n" by linarith
    moreover have "n < 2 * 2 ^ fls (n div 2)" using ih(2) by linarith
    ultimately show ?thesis by (simp add: f)
  qed
qed

subsection \<open>Shifting a positive count\<close>

lemma shr_small:
  fixes n :: nat
  assumes "n < 2 ^ f" and "16 \<le> f"
  shows "n div 2 ^ (f - 16) < 2 ^ 16"
proof -
  have "(2::nat) ^ (16 + (f - 16)) = 2 ^ 16 * 2 ^ (f - 16)"
    by (rule power_add)
  moreover have "16 + (f - 16) = f" using assms(2) by simp
  ultimately have "(2::nat) ^ f = 2 ^ 16 * 2 ^ (f - 16)" by simp
  with assms(1) have "n < 2 ^ 16 * 2 ^ (f - 16)" by simp
  then show ?thesis by (rule less_mult_imp_div_less)
qed

lemma shr_large:
  fixes n :: nat
  assumes "2 ^ (f - 1) \<le> n" and "k + 16 < f"
  shows "2 ^ 16 \<le> n div 2 ^ k"
proof -
  have "(2::nat) ^ ((f - 1 - k) + k) = 2 ^ (f - 1 - k) * 2 ^ k"
    by (rule power_add)
  moreover have "(f - 1 - k) + k = f - 1" using assms(2) by simp
  ultimately have "(2::nat) ^ (f - 1) = 2 ^ (f - 1 - k) * 2 ^ k" by simp
  then have "(2::nat) ^ (f - 1) div 2 ^ k = 2 ^ (f - 1 - k)" by simp
  moreover have "(2::nat) ^ (f - 1) div 2 ^ k \<le> n div 2 ^ k"
    using assms(1) by (rule div_le_mono)
  moreover have "(2::nat) ^ 16 \<le> 2 ^ (f - 1 - k)"
    using assms(2) by (intro power_increasing) simp_all
  ultimately show ?thesis by linarith
qed

lemma uint_sint_nonneg:
  fixes w :: "'a::len word"
  assumes "0 \<le> sint w"
  shows "uint w = sint w"
proof -
  have "sint w < 2 ^ (LENGTH('a) - 1)" by (rule sint_lt)
  also have "(2::int) ^ (LENGTH('a) - 1) \<le> 2 ^ LENGTH('a)"
    by (intro power_increasing) simp_all
  finally have "sint w < 2 ^ LENGTH('a)" .
  with assms show ?thesis by (simp add: uint_sint take_bit_int_eq_self)
qed

lemma sint_shr_pos:
  fixes w :: u32
  assumes "0 <s w"
  shows "sint (signed_drop_bit k w) = int (unat w div 2 ^ k)"
proof -
  from assms have "0 \<le> sint w" by (simp add: word_sless_alt)
  then have "uint w = sint w" by (rule uint_sint_nonneg)
  then have "sint w = int (unat w)" by simp
  then show ?thesis
    by (simp add: sint_signed_drop_bit_eq drop_bit_eq_div zdiv_int)
qed

lemma calc_prescaler_eq:
  "calc_prescaler w = (if fls (unat w) \<le> 16 then 0 else int (fls (unat w) - 16))"
  by (simp add: calc_prescaler_def ilog2_def Let_def)

lemmas example_defs =
  example_chip_def example_pwm_def example_clk_def dead_chip_def dead_pwm_def dead_clk_def
  valid_channel_def CPWM_NUM_PWM_def

subsection \<open>Nanoseconds to clock ticks\<close>

lemma uint_scast_nonneg:
  fixes ns :: u32
  assumes "0 \<le> sint ns"
  shows "uint (scast ns :: u64) = sint ns"
proof -
  have "sint (scast ns :: u64) = sint ns" by (rule sint_up_scast) (simp add: is_up)
  with assms have "0 \<le> sint (scast ns :: u64)" by simp
  then have "uint (scast ns :: u64) = sint (scast ns :: u64)" by (rule uint_sint_nonneg)
  then show ?thesis by (simp add: \<open>sint (scast ns :: u64) = sint ns\<close>)
qed

lemma uint_ns_to_clocks64:
  fixes ns :: u32 and rate :: u64
  assumes "0 \<le> sint ns" and "sint ns * uint rate < 2 ^ 64"
  shows "uint (ns_to_clocks64 ns rate) = sint ns * uint rate div 1000000000"
proof -
  have "uint (scast ns * rate) = (uint (scast ns :: u64) * uint rate) mod 2 ^ 64"
    by (simp add: uint_word_ariths)
  also have "\<dots> = (sint ns * uint rate) mod 2 ^ 64"
    using assms(1) by (simp add: uint_scast_nonneg)
  also have "\<dots> = sint ns * uint rate"
    using assms by (intro mod_pos_pos_trivial) simp_all
  finally have "uint (scast ns * rate) = sint ns * uint rate" .
  then show ?thesis by (simp add: ns_to_clocks64_def uint_div)
qed

lemma floor_small_product:
  fixes p :: int
  assumes "p div 1000000000 < 2 ^ 31"
  shows "p < 2 ^ 64"
proof -
  have "p = 1000000000 * (p div 1000000000) + p mod 1000000000" by simp
  moreover have "p mod 1000000000 < 1000000000" by simp
  ultimately have "p < 1000000000 * (p div 1000000000) + 1000000000" by linarith
  with assms show ?thesis by simp
qed

lemma sint_ns_to_clocks:
  fixes ns :: u32 and rate :: u64
  assumes "0 \<le> sint ns" and "sint ns * uint rate div 1000000000 < 2 ^ 31"
  shows "sint (ns_to_clocks ns rate) = sint ns * uint rate div 1000000000"
proof -
  define q where "q = sint ns * uint rate div 1000000000"
  have p: "sint ns * uint rate < 2 ^ 64" using assms(2) by (rule floor_small_product)
  have u: "uint (ns_to_clocks64 ns rate) = q"
    unfolding q_def using assms(1) p by (rule uint_ns_to_clocks64)
  have q0: "0 \<le> q" using assms(1) by (simp add: q_def pos_imp_zdiv_nonneg_iff)
  have q1: "q < 2 ^ 31" using assms(2) by (simp add: q_def)
  have "uint (ns_to_clocks ns rate) = take_bit 32 q"
    by (simp add: ns_to_clocks_def u [symmetric] unsigned_ucast_eq)
  also have "\<dots> = q" using q0 q1 by (simp add: take_bit_int_eq_self)
  finally have v: "uint (ns_to_clocks ns rate) = q" .
  have "sint (ns_to_clocks ns rate) = signed_take_bit 31 q"
    by (simp add: sint_uint v)
  also have "\<dots> = q" using q0 q1 by (simp add: signed_take_bit_int_eq_self)
  finally show ?thesis by (simp add: q_def)
qed

subsection \<open>Small counts and bit fields\<close>

lemma fls_le_16:
  assumes "n < 2 ^ 16"
  shows "fls n \<le> 16"
proof (cases "n = 0")
  case True
  then show ?thesis by (simp add: fls_0)
next
  case False
  then have "0 < n" by simp
  from fls_bounds [OF this] have "2 ^ (fls n - 1) \<le> n" by simp
  with assms have "(2::nat) ^ (fls n - 1) < 2 ^ 16" by linarith
  then have "fls n - 1 < 16" by (rule power_less_imp_less_exp [rotated]) simp
  then show ?thesis by simp
qed

lemma counter_ctrl_value_keeps_counting_disable:
  "counter_ctrl_value cc pol AND CPWM_COUNTER_CTRL_COUNTING_DISABLE =
   cc AND CPWM_COUNTER_CTRL_COUNTING_DISABLE"
  by (simp add: counter_ctrl_value_def cpwm_consts Let_def bit.conj_disj_distrib2 and.assoc)

lemma counter_ctrl_value_keeps_wave_disable:
  "counter_ctrl_value cc pol AND CPWM_COUNTER_CTRL_WAVE_DISABLE =
   cc AND CPWM_COUNTER_CTRL_WAVE_DISABLE"
  by (simp add: counter_ctrl_value_def cpwm_consts Let_def bit.conj_disj_distrib2 and.assoc)

lemma clk_ctrl_value_no_prescale:
  "clk_ctrl_value x 0 ext AND (CPWM_CLK_PRESCALE_ENABLE OR CPWM_CLK_PRESCALE_MASK) = 0"
  by (simp add: clk_ctrl_value_def cpwm_consts Let_def bit.conj_disj_distrib2 and.assoc)

lemma clk_ctrl_value_4_mask:
  "clk_ctrl_value x 4 ext AND CPWM_CLK_PRESCALE_MASK = push_bit CPWM_CLK_PRESCALE_SHIFT 3"
  by (simp add: clk_ctrl_value_def cpwm_consts Let_def bit.conj_disj_distrib2 and.assoc)

lemma and_or_absorb: "(x AND a) OR a = (a :: u32)"
  by (simp add: bit_eq_iff bit_simps)

lemma clk_ctrl_value_4_enable:
  "clk_ctrl_value x 4 ext AND CPWM_CLK_PRESCALE_ENABLE = CPWM_CLK_PRESCALE_ENABLE"
  by (simp add: clk_ctrl_value_def cpwm_consts Let_def bit.conj_disj_distrib2 and.assoc
        and_or_absorb)

lemma count_value_0_small:
  assumes "uint w < 2 ^ 16"
  shows "count_value w 0 = w"
proof -
  have "(0xffff :: u32) = mask 16" by (simp add: mask_eq_exp_minus_1)
  then have "w AND 0xffff = take_bit 16 w" by (simp add: take_bit_eq_mask)
  also have "\<dots> = w"
    using assms by (simp add: word_eq_iff_unsigned [where ?'a = int] unsigned_take_bit_eq take_bit_int_eq_self)
  finally show ?thesis by (simp add: count_value_def)
qed

lemma servo_clocks:
  "ns_to_clocks 20000000 50000000 = 1000000"
  "ns_to_clocks 1500000 50000000 = 75000"
  "calc_prescaler 1000000 = 4"
  "count_value 1000000 4 = 62500"
  "count_value 75000 4 = 4687"
  by (simp_all add: ns_to_clocks_def ns_to_clocks64_def calc_prescaler_def ilog2_def fls_num
        count_value_def)

subsection \<open>The three ways through the configuration\<close>

lemma config_clk_fail:
  assumes "clk_enable_errno (clk (pwms c ! h)) \<noteq> 0"
  shows "cadence_pwm_config c h d p =
           (Inl (ClockUnavailable (clk_enable_errno (clk (pwms c ! h)))), c)"
  using assms by (simp add: cadence_pwm_config_def clk_prepare_enable_def)

lemma config_invalid:
  assumes "clk_enable_errno (clk (pwms c ! h)) = 0" and "p <s 0"
  shows "cadence_pwm_config c h d p =
           (Inl InvalidArgument,
            set_clk c h ((clk (pwms c ! h))
              \<lparr>clk_enable_count := clk_enable_count (clk (pwms c ! h)) + 1\<rparr>))"
  using assms by (simp add: cadence_pwm_config_def clk_prepare_enable_def)

lemma regs_set_clk: "regs (set_clk c h k) = regs c"
  by (simp add: set_clk_def)

lemma pwms_set_clk:
  "h < length (pwms c) \<Longrightarrow> pwms (set_clk c h k) ! h = (pwms c ! h)\<lparr>clk := k\<rparr>"
  by (simp add: set_clk_def)

lemma pwms_cpwm_write: "pwms (cpwm_write c h r v) = pwms c"
  by (simp add: cpwm_write_def)

lemma regs_cpwm_write:
  "regs (cpwm_write c h r v) = (regs c)(cpwm_register_address h r := v)"
  by (simp add: cpwm_write_def)

lemma config_ok:
  assumes "valid_channel c h"
    and "clk_enable_errno (clk (pwms c ! h)) = 0" and "\<not> p <s 0"
  shows "fst (cadence_pwm_config c h d p) = Inr ()"
    and "regs (snd (cadence_pwm_config c h d p)) =
          (regs c)
          (cpwm_register_address h CPWM_CLK_CTRL :=
             clk_ctrl_value (cpwm_read c h CPWM_CLK_CTRL)
               (calc_prescaler (ns_to_clocks p (clk_rate (clk (pwms c ! h)))))
               (useExternalClk (pwms c ! h)),
           cpwm_register_address h CPWM_INTERVAL_COUNTER :=
             count_value (ns_to_clocks p (clk_rate (clk (pwms c ! h))))
               (calc_prescaler (ns_to_clocks p (clk_rate (clk (pwms c ! h))))),
           cpwm_register_address h CPWM_MATCH_1_COUNTER :=
             count_value (ns_to_clocks d (clk_rate (clk (pwms c ! h))))
               (calc_prescaler (ns_to_clocks p (clk_rate (clk (pwms c ! h))))),
           cpwm_register_address h CPWM_COUNTER_CTRL :=
             counter_ctrl_value (cpwm_read c h CPWM_COUNTER_CTRL) (polarity (pwms c ! h)))"
proof -
  from assms(1) have len: "h < length (pwms c)" by (simp add: valid_channel_def)
  show "fst (cadence_pwm_config c h d p) = Inr ()"
    using assms(2,3)
    by (simp add: cadence_pwm_config_def clk_prepare_enable_def Let_def)
  show "regs (snd (cadence_pwm_config c h d p)) = (regs c)
          (cpwm_register_address h CPWM_CLK_CTRL :=
             clk_ctrl_value (cpwm_read c h CPWM_CLK_CTRL)
               (calc_prescaler (ns_to_clocks p (clk_rate (clk (pwms c ! h)))))
               (useExternalClk (pwms c ! h)),
           cpwm_register_address h CPWM_INTERVAL_COUNTER :=
             count_value (ns_to_clocks p (clk_rate (clk (pwms c ! h))))
               (calc_prescaler (ns_to_clocks p (clk_rate (clk (pwms c ! h))))),
           cpwm_register_address h CPWM_MATCH_1_COUNTER :=
             count_value (ns_to_clocks d (clk_rate (clk (pwms c ! h))))
               (calc_prescaler (ns_to_clocks p (clk_rate (clk (pwms c ! h))))),
           cpwm_register_address h CPWM_COUNTER_CTRL :=
             counter_ctrl_value (cpwm_read c h CPWM_COUNTER_CTRL) (polarity (pwms c ! h)))"
    using assms(2,3) len
    by (simp add: cadence_pwm_config_def clk_prepare_enable_def Let_def
          regs_cpwm_write pwms_cpwm_write regs_set_clk pwms_set_clk
          cpwm_read_def clk_get_rate_def cpwm_register_address_def fun_eq_iff)
qed

lemma config_read:
  assumes "valid_channel c h"
    and "clk_enable_errno (clk (pwms c ! h)) = 0" and "\<not> p <s 0"
  shows "cpwm_read (snd (cadence_pwm_config c h d p)) h CPWM_COUNTER_CTRL =
           counter_ctrl_value (cpwm_read c h CPWM_COUNTER_CTRL) (polarity (pwms c ! h))"
    and "cpwm_read (snd (cadence_pwm_config c h d p)) h CPWM_CLK_CTRL =
           clk_ctrl_value (cpwm_read c h CPWM_CLK_CTRL)
             (calc_prescaler (ns_to_clocks p (clk_rate (clk (pwms c ! h)))))
             (useExternalClk (pwms c ! h))"
    and "cpwm_read (snd (cadence_pwm_config c h d p)) h CPWM_INTERVAL_COUNTER =
           count_value (ns_to_clocks p (clk_rate (clk (pwms c ! h))))
             (calc_prescaler (ns_to_clocks p (clk_rate (clk (pwms c ! h)))))"
    and "cpwm_read (snd (cadence_pwm_config c h d p)) h CPWM_MATCH_1_COUNTER =
           count_value (ns_to_clocks d (clk_rate (clk (pwms c ! h))))
             (calc_prescaler (ns_to_clocks p (clk_rate (clk (pwms c ! h)))))"
  by (simp_all add: cpwm_read_def [of "snd (cadence_pwm_config c h d p)"]
        config_ok(2) [OF assms] cpwm_register_address_def)

section \<open>The prescaler\<close>

text \<open>
  C1. For every \<open>period_clocks > 0\<close> (as the C \<^verbatim>\<open>int\<close>), the prescaler exponent
  \<open>e = calc_prescaler period_clocks\<close>, that is \<^verbatim>\<open>ilog2(period_clocks) + 1 - 16\<close> clamped
  below at 0, brings the shifted count into the 16-bit range,
  \<open>(period_clocks >> e) \<le> 65535\<close>, and it is the least such exponent: when \<open>e > 0\<close>,
  \<open>(period_clocks >> (e - 1)) > 65535\<close>, and so does every smaller shift.
\<close>

theorem prescaler_correct:
  assumes "0 <s period_clocks"
  shows "sint (signed_drop_bit (nat (calc_prescaler period_clocks)) period_clocks) \<le> 65535 \<and>
         (0 < calc_prescaler period_clocks \<longrightarrow>
            65535 < sint (signed_drop_bit (nat (calc_prescaler period_clocks - 1))
                            period_clocks)) \<and>
         (\<forall>e. 0 \<le> e \<and> e < calc_prescaler period_clocks \<longrightarrow>
            65535 < sint (signed_drop_bit (nat e) period_clocks))"
proof -
  define n where "n = unat period_clocks"
  define f where "f = fls n"
  from assms have "period_clocks \<noteq> 0" by auto
  then have npos: "0 < n" by (simp add: n_def unat_gt_0)
  from fls_bounds [OF npos] have lo: "2 ^ (f - 1) \<le> n" and hi: "n < 2 ^ f"
    by (simp_all add: f_def)
  have e: "calc_prescaler period_clocks = (if f \<le> 16 then 0 else int (f - 16))"
    by (simp add: calc_prescaler_eq f_def n_def)
  have sh: "sint (signed_drop_bit k period_clocks) = int (n div 2 ^ k)" for k
    using assms by (simp add: sint_shr_pos n_def)
  have ne: "nat (calc_prescaler period_clocks) = f - 16"
    by (cases "f \<le> 16") (simp_all add: e)
  have upper: "n div 2 ^ nat (calc_prescaler period_clocks) < 2 ^ 16"
  proof (cases "f \<le> 16")
    case True
    then have "(2::nat) ^ f \<le> 2 ^ 16" by (intro power_increasing) simp_all
    with hi True show ?thesis by (simp add: ne)
  next
    case False
    then have "16 \<le> f" by simp
    from shr_small [OF hi this] show ?thesis by (simp only: ne)
  qed
  have lower: "2 ^ 16 \<le> n div 2 ^ k" if "int k < calc_prescaler period_clocks" for k
  proof -
    from that have "k + 16 < f" by (simp add: e split: if_splits)
    with lo show ?thesis by (rule shr_large)
  qed
  have c1: "sint (signed_drop_bit (nat (calc_prescaler period_clocks)) period_clocks) \<le> 65535"
    using upper by (simp add: sh)
  have c3: "65535 < sint (signed_drop_bit (nat e') period_clocks)"
    if "0 \<le> e'" "e' < calc_prescaler period_clocks" for e'
  proof -
    from that have "int (nat e') < calc_prescaler period_clocks" by simp
    from lower [OF this] show ?thesis by (simp add: sh)
  qed
  have c2: "65535 < sint (signed_drop_bit (nat (calc_prescaler period_clocks - 1)) period_clocks)"
    if "0 < calc_prescaler period_clocks"
    using that by (intro c3) simp_all
  from c1 c2 c3 show ?thesis by blast
qed

text \<open>At \<open>period_clocks = 1000000\<close> the exponent is 4: 62500 fits, 125000 does not.\<close>

theorem prescaler_correct_witness:
  "0 <s (1000000 :: u32) \<and> calc_prescaler 1000000 = 4 \<and>
   sint (signed_drop_bit 4 (1000000 :: u32)) \<le> 65535 \<and>
   65535 < sint (signed_drop_bit 3 (1000000 :: u32))"
proof -
  have h: "0 <s (1000000 :: u32)" by (simp add: word_sless_alt)
  have e: "calc_prescaler 1000000 = 4"
    by (simp add: calc_prescaler_def ilog2_def fls_num)
  from prescaler_correct [OF h]
  have "sint (signed_drop_bit (nat (calc_prescaler 1000000)) (1000000 :: u32)) \<le> 65535"
    and "0 < calc_prescaler 1000000 \<longrightarrow>
         65535 < sint (signed_drop_bit (nat (calc_prescaler 1000000 - 1)) (1000000 :: u32))"
    by blast+
  with h e show ?thesis by simp
qed

section \<open>Period and duty in clock ticks\<close>

text \<open>
  The quotient is exact only while it fits the \<^verbatim>\<open>int\<close> it is stored in: with
  \<open>period_ns = 2147483647\<close> on a 2 GHz clock the floor is 4294967294, and
  \<open>period_clocks\<close> is \<open>-2\<close>.
\<close>

theorem period_clocks_floor_counterexample:
  "0 \<le> sint (2147483647 :: u32) \<and> 0 < (2000000000 :: u64) \<and>
   sint (ns_to_clocks 2147483647 2000000000) = - 2 \<and>
   sint (2147483647 :: u32) * uint (2000000000 :: u64) div 1000000000 = 4294967294 \<and>
   sint (ns_to_clocks 2147483647 2000000000) \<noteq>
     sint (2147483647 :: u32) * uint (2000000000 :: u64) div 1000000000"
  by (simp add: ns_to_clocks_def ns_to_clocks64_def)

text \<open>
  C2 (as amended). For every non-negative \<open>ns\<close> (the period in Step 2, the duty in
  Step 5): whenever \<open>ns * rate\<close> is below \<open>2^64\<close>, and so for every clock rate below
  \<open>2^32\<close>, the 64-bit quotient is exactly \<open>floor (ns * rate / 1000000000)\<close>, and the
  32-bit value stored is that floor modulo \<open>2^32\<close>; the stored \<^verbatim>\<open>int\<close> equals the floor
  whenever the floor is at most \<open>2^31 - 1\<close>.
\<close>

theorem ns_to_clocks_floor:
  assumes "0 \<le> sint ns"
  shows "(sint ns * uint rate < 2 ^ 64 \<longrightarrow>
            uint (ns_to_clocks64 ns rate) = sint ns * uint rate div 1000000000 \<and>
            uint (ns_to_clocks ns rate) = (sint ns * uint rate div 1000000000) mod 2 ^ 32) \<and>
         (uint rate < 2 ^ 32 \<longrightarrow>
            uint (ns_to_clocks64 ns rate) = sint ns * uint rate div 1000000000) \<and>
         (sint ns * uint rate div 1000000000 < 2 ^ 31 \<longrightarrow>
            sint (ns_to_clocks ns rate) = sint ns * uint rate div 1000000000)"
proof (intro conjI impI)
  assume "sint ns * uint rate < 2 ^ 64"
  with assms show q: "uint (ns_to_clocks64 ns rate) = sint ns * uint rate div 1000000000"
    by (rule uint_ns_to_clocks64)
  have "uint (ns_to_clocks ns rate) = take_bit 32 (uint (ns_to_clocks64 ns rate))"
    by (simp add: ns_to_clocks_def unsigned_ucast_eq)
  then show "uint (ns_to_clocks ns rate) = (sint ns * uint rate div 1000000000) mod 2 ^ 32"
    by (simp add: q take_bit_eq_mod)
next
  assume r: "uint rate < 2 ^ 32"
  have "sint ns < 2 ^ (LENGTH(32) - 1)" by (rule sint_lt)
  then have n: "sint ns \<le> 2 ^ 31" by simp
  have "sint ns * uint rate \<le> 2 ^ 31 * uint rate"
    using n by (intro mult_right_mono) simp_all
  also have "\<dots> < 2 ^ 31 * 2 ^ 32"
    using r by (intro mult_strict_left_mono) simp_all
  finally have "sint ns * uint rate < 2 ^ 64" by simp
  with assms show "uint (ns_to_clocks64 ns rate) = sint ns * uint rate div 1000000000"
    by (rule uint_ns_to_clocks64)
next
  assume "sint ns * uint rate div 1000000000 < 2 ^ 31"
  with assms show "sint (ns_to_clocks ns rate) = sint ns * uint rate div 1000000000"
    by (rule sint_ns_to_clocks)
qed

theorem ns_to_clocks_floor_witness:
  "0 \<le> sint (20000000 :: u32) \<and>
   sint (20000000 :: u32) * uint (50000000 :: u64) < 2 ^ 64 \<and>
   uint (50000000 :: u64) < 2 ^ 32 \<and>
   sint (20000000 :: u32) * uint (50000000 :: u64) div 1000000000 < 2 ^ 31 \<and>
   uint (ns_to_clocks64 20000000 50000000) = 1000000 \<and>
   sint (ns_to_clocks 20000000 50000000) = 1000000"
proof -
  have h: "0 \<le> sint (20000000 :: u32)" by simp
  from ns_to_clocks_floor [OF h, of 50000000] show ?thesis by simp
qed

section \<open>Failing configurations\<close>

text \<open>
  A negative period on a channel whose clock cannot be enabled fails with the clock's
  error, not with \<open>InvalidArgument\<close>: the clock is tried first.
\<close>

theorem config_negative_period_counterexample:
  "valid_channel dead_chip 0 \<and> (- 1 :: u32) <s 0 \<and>
   fst (cadence_pwm_config dead_chip 0 0 (- 1)) = Inl (ClockUnavailable (- 19)) \<and>
   fst (cadence_pwm_config dead_chip 0 0 (- 1)) \<noteq> Inl InvalidArgument"
  by (simp add: example_defs cadence_pwm_config_def clk_prepare_enable_def word_sless_alt)

text \<open>
  C3 (as amended). For every channel, configure with a negative \<open>period_ns\<close> fails and
  writes no register; the failure is \<open>InvalidArgument\<close> when the channel clock enables,
  and the clock's error otherwise.
\<close>

theorem config_negative_period:
  assumes "valid_channel c h" and "period_ns <s 0"
  shows "fst (cadence_pwm_config c h duty_ns period_ns) =
           (if clk_enable_errno (clk (pwms c ! h)) = 0 then Inl InvalidArgument
            else Inl (ClockUnavailable (clk_enable_errno (clk (pwms c ! h))))) \<and>
         regs (snd (cadence_pwm_config c h duty_ns period_ns)) = regs c"
proof (cases "clk_enable_errno (clk (pwms c ! h)) = 0")
  case True
  from config_invalid [OF True assms(2)] True show ?thesis
    by (simp add: regs_set_clk)
next
  case False
  from config_clk_fail [OF False] False show ?thesis by simp
qed

theorem config_negative_period_witness:
  "valid_channel example_chip 0 \<and> (- 1 :: u32) <s 0 \<and>
   clk_enable_errno (clk (pwms example_chip ! 0)) = 0 \<and>
   fst (cadence_pwm_config example_chip 0 1500000 (- 1)) = Inl InvalidArgument \<and>
   regs (snd (cadence_pwm_config example_chip 0 1500000 (- 1))) = regs example_chip"
proof -
  have v: "valid_channel example_chip 0" by (simp add: example_defs)
  have n: "(- 1 :: u32) <s 0" by (simp add: word_sless_alt)
  have e: "clk_enable_errno (clk (pwms example_chip ! 0)) = 0" by (simp add: example_defs)
  from config_negative_period [OF v n, of 1500000] v n e show ?thesis by simp
qed

text \<open>
  C4. For every channel and every input, if the channel clock fails to prepare/enable,
  configure fails with \<open>ClockUnavailable\<close> and the chip, every register included, is as
  it was before the call.
\<close>

theorem config_clock_unavailable:
  assumes "valid_channel c h" and "clk_enable_errno (clk (pwms c ! h)) \<noteq> 0"
  shows "fst (cadence_pwm_config c h duty_ns period_ns) =
           Inl (ClockUnavailable (clk_enable_errno (clk (pwms c ! h)))) \<and>
         snd (cadence_pwm_config c h duty_ns period_ns) = c \<and>
         regs (snd (cadence_pwm_config c h duty_ns period_ns)) = regs c"
  using config_clk_fail [OF assms(2)] by simp

theorem config_clock_unavailable_witness:
  "valid_channel dead_chip 1 \<and> clk_enable_errno (clk (pwms dead_chip ! 1)) \<noteq> 0 \<and>
   fst (cadence_pwm_config dead_chip 1 1500000 20000000) = Inl (ClockUnavailable (- 19)) \<and>
   snd (cadence_pwm_config dead_chip 1 1500000 20000000) = dead_chip \<and>
   regs (snd (cadence_pwm_config dead_chip 1 1500000 20000000)) = regs dead_chip"
proof -
  have v: "valid_channel dead_chip 1" by (simp add: example_defs)
  have e: "clk_enable_errno (clk (pwms dead_chip ! 1)) \<noteq> 0" by (simp add: example_defs)
  have e': "clk_enable_errno (clk (pwms dead_chip ! 1)) = - 19" by (simp add: example_defs)
  from config_clock_unavailable [OF v e, of 1500000 20000000] v e e' show ?thesis by simp
qed

section \<open>Successful configurations\<close>

text \<open>
  C5. A successful configure leaves the counting-disabled bit and the waveform-disable
  bit of the counter-control register as they were, so that a channel that was enabled
  (both bits clear) is still enabled, and the interval and match-1 registers hold the
  newly computed values \<^verbatim>\<open>(period_clocks >> prescaler) & 0xffff\<close> and
  \<^verbatim>\<open>(duty_clocks >> prescaler) & 0xffff\<close>.
\<close>

theorem config_keeps_enabled:
  assumes "valid_channel c h" and "clk_enable_errno (clk (pwms c ! h)) = 0"
    and "\<not> period_ns <s 0"
  shows "fst (cadence_pwm_config c h duty_ns period_ns) = Inr () \<and>
         cpwm_read (snd (cadence_pwm_config c h duty_ns period_ns)) h CPWM_COUNTER_CTRL
             AND CPWM_COUNTER_CTRL_COUNTING_DISABLE =
           cpwm_read c h CPWM_COUNTER_CTRL AND CPWM_COUNTER_CTRL_COUNTING_DISABLE \<and>
         cpwm_read (snd (cadence_pwm_config c h duty_ns period_ns)) h CPWM_COUNTER_CTRL
             AND CPWM_COUNTER_CTRL_WAVE_DISABLE =
           cpwm_read c h CPWM_COUNTER_CTRL AND CPWM_COUNTER_CTRL_WAVE_DISABLE \<and>
         (cpwm_read c h CPWM_COUNTER_CTRL AND CPWM_COUNTER_CTRL_COUNTING_DISABLE = 0 \<and>
          cpwm_read c h CPWM_COUNTER_CTRL AND CPWM_COUNTER_CTRL_WAVE_DISABLE = 0 \<longrightarrow>
          cpwm_read (snd (cadence_pwm_config c h duty_ns period_ns)) h CPWM_COUNTER_CTRL
              AND CPWM_COUNTER_CTRL_COUNTING_DISABLE = 0 \<and>
          cpwm_read (snd (cadence_pwm_config c h duty_ns period_ns)) h CPWM_COUNTER_CTRL
              AND CPWM_COUNTER_CTRL_WAVE_DISABLE = 0) \<and>
         cpwm_read (snd (cadence_pwm_config c h duty_ns period_ns)) h CPWM_INTERVAL_COUNTER =
           signed_drop_bit
             (nat (calc_prescaler (ns_to_clocks period_ns (clk_get_rate (clk (pwms c ! h))))))
             (ns_to_clocks period_ns (clk_get_rate (clk (pwms c ! h)))) AND 0xffff \<and>
         cpwm_read (snd (cadence_pwm_config c h duty_ns period_ns)) h CPWM_MATCH_1_COUNTER =
           signed_drop_bit
             (nat (calc_prescaler (ns_to_clocks period_ns (clk_get_rate (clk (pwms c ! h))))))
             (ns_to_clocks duty_ns (clk_get_rate (clk (pwms c ! h)))) AND 0xffff"
  by (simp add: config_ok(1) [OF assms] config_read [OF assms]
        counter_ctrl_value_keeps_counting_disable counter_ctrl_value_keeps_wave_disable
        count_value_def clk_get_rate_def)

theorem config_keeps_enabled_witness:
  "valid_channel example_chip 0 \<and> clk_enable_errno (clk (pwms example_chip ! 0)) = 0 \<and>
   \<not> (20000000 :: u32) <s 0 \<and>
   cpwm_read example_chip 0 CPWM_COUNTER_CTRL AND CPWM_COUNTER_CTRL_COUNTING_DISABLE = 0 \<and>
   cpwm_read example_chip 0 CPWM_COUNTER_CTRL AND CPWM_COUNTER_CTRL_WAVE_DISABLE = 0 \<and>
   fst (cadence_pwm_config example_chip 0 1500000 20000000) = Inr () \<and>
   cpwm_read (snd (cadence_pwm_config example_chip 0 1500000 20000000)) 0 CPWM_COUNTER_CTRL
     AND CPWM_COUNTER_CTRL_COUNTING_DISABLE = 0 \<and>
   cpwm_read (snd (cadence_pwm_config example_chip 0 1500000 20000000)) 0 CPWM_COUNTER_CTRL
     AND CPWM_COUNTER_CTRL_WAVE_DISABLE = 0"
proof -
  have v: "valid_channel example_chip 0" by (simp add: example_defs)
  have e: "clk_enable_errno (clk (pwms example_chip ! 0)) = 0" by (simp add: example_defs)
  have n: "\<not> (20000000 :: u32) <s 0" by (simp add: word_sless_alt)
  have r: "cpwm_read example_chip 0 CPWM_COUNTER_CTRL = 0"
    by (simp add: cpwm_read_def example_chip_def)
  from config_keeps_enabled [OF v e n, of 1500000] v e n r show ?thesis by simp
qed

text \<open>
  C6. On a 50 MHz clock, with \<open>period_ns = 20000000\<close> and \<open>duty_ns = 1500000\<close>,
  configure computes \<open>period_clocks = 1000000\<close> and \<open>duty_clocks = 75000\<close>, the
  prescaler exponent 4 (prescale field 3, prescaler enabled), and writes 62500 to the
  interval register and 4687 to the match-1 register.
\<close>

theorem config_servo_scenario:
  assumes "valid_channel c h" and "clk_enable_errno (clk (pwms c ! h)) = 0"
    and "clk_get_rate (clk (pwms c ! h)) = 50000000"
  shows "ns_to_clocks 20000000 (clk_get_rate (clk (pwms c ! h))) = 1000000 \<and>
         ns_to_clocks 1500000 (clk_get_rate (clk (pwms c ! h))) = 75000 \<and>
         calc_prescaler (ns_to_clocks 20000000 (clk_get_rate (clk (pwms c ! h)))) = 4 \<and>
         fst (cadence_pwm_config c h 1500000 20000000) = Inr () \<and>
         cpwm_read (snd (cadence_pwm_config c h 1500000 20000000)) h CPWM_CLK_CTRL
             AND CPWM_CLK_PRESCALE_MASK = push_bit CPWM_CLK_PRESCALE_SHIFT 3 \<and>
         cpwm_read (snd (cadence_pwm_config c h 1500000 20000000)) h CPWM_CLK_CTRL
             AND CPWM_CLK_PRESCALE_ENABLE = CPWM_CLK_PRESCALE_ENABLE \<and>
         cpwm_read (snd (cadence_pwm_config c h 1500000 20000000)) h CPWM_INTERVAL_COUNTER
           = 62500 \<and>
         cpwm_read (snd (cadence_pwm_config c h 1500000 20000000)) h CPWM_MATCH_1_COUNTER
           = 4687"
proof -
  have n: "\<not> (20000000 :: u32) <s 0" by (simp add: word_sless_alt)
  from assms(3) have r: "clk_rate (clk (pwms c ! h)) = 50000000"
    by (simp add: clk_get_rate_def)
  show ?thesis
    by (simp add: config_ok(1) [OF assms(1,2) n] config_read [OF assms(1,2) n] assms(3) r
          servo_clocks clk_ctrl_value_4_mask clk_ctrl_value_4_enable)
qed

theorem config_servo_scenario_witness:
  "valid_channel example_chip 1 \<and> clk_enable_errno (clk (pwms example_chip ! 1)) = 0 \<and>
   clk_get_rate (clk (pwms example_chip ! 1)) = 50000000 \<and>
   fst (cadence_pwm_config example_chip 1 1500000 20000000) = Inr () \<and>
   cpwm_read (snd (cadence_pwm_config example_chip 1 1500000 20000000)) 1
     CPWM_INTERVAL_COUNTER = 62500 \<and>
   cpwm_read (snd (cadence_pwm_config example_chip 1 1500000 20000000)) 1
     CPWM_MATCH_1_COUNTER = 4687"
proof -
  have v: "valid_channel example_chip 1" by (simp add: example_defs)
  have e: "clk_enable_errno (clk (pwms example_chip ! 1)) = 0" by (simp add: example_defs)
  have r: "clk_get_rate (clk (pwms example_chip ! 1)) = 50000000"
    by (simp add: example_defs clk_get_rate_def)
  from config_servo_scenario [OF v e r] v e r show ?thesis by simp
qed

text \<open>
  C7. For every non-negative \<open>period_ns\<close> and clock rate with
  \<open>floor (period_ns * rate / 1000000000) \<le> 65535\<close>, configure selects the prescaler
  exponent 0, clears the prescale-enable and prescale-value bits of the clock-control
  register, and writes exactly that number of clocks to the interval register.
\<close>

theorem config_zero_prescaler:
  assumes "valid_channel c h" and "0 \<le> sint period_ns"
    and "sint period_ns * uint (clk_get_rate (clk (pwms c ! h))) div 1000000000 \<le> 65535"
  shows "sint (ns_to_clocks period_ns (clk_get_rate (clk (pwms c ! h)))) =
           sint period_ns * uint (clk_get_rate (clk (pwms c ! h))) div 1000000000 \<and>
         calc_prescaler (ns_to_clocks period_ns (clk_get_rate (clk (pwms c ! h)))) = 0 \<and>
         (clk_enable_errno (clk (pwms c ! h)) = 0 \<longrightarrow>
            fst (cadence_pwm_config c h duty_ns period_ns) = Inr () \<and>
            cpwm_read (snd (cadence_pwm_config c h duty_ns period_ns)) h CPWM_CLK_CTRL
                AND (CPWM_CLK_PRESCALE_ENABLE OR CPWM_CLK_PRESCALE_MASK) = 0 \<and>
            cpwm_read (snd (cadence_pwm_config c h duty_ns period_ns)) h
                CPWM_INTERVAL_COUNTER =
              ns_to_clocks period_ns (clk_get_rate (clk (pwms c ! h))) \<and>
            uint (cpwm_read (snd (cadence_pwm_config c h duty_ns period_ns)) h
                    CPWM_INTERVAL_COUNTER) =
              sint period_ns * uint (clk_get_rate (clk (pwms c ! h))) div 1000000000)"
proof -
  define rate where "rate = clk_rate (clk (pwms c ! h))"
  define pc where "pc = ns_to_clocks period_ns rate"
  define q where "q = sint period_ns * uint rate div 1000000000"
  have n: "\<not> period_ns <s 0" using assms(2) by (simp add: word_sless_alt)
  have q16: "q \<le> 65535" using assms(3) by (simp add: q_def rate_def clk_get_rate_def)
  then have "q < 2 ^ 31" by simp
  with assms(2) have s: "sint pc = q"
    unfolding pc_def q_def by (intro sint_ns_to_clocks)
  have q0: "0 \<le> q" using assms(2) by (simp add: q_def pos_imp_zdiv_nonneg_iff)
  with s have "0 \<le> sint pc" by simp
  then have u: "uint pc = q" using s by (simp add: uint_sint_nonneg)
  with q16 have small: "uint pc < 2 ^ 16" by simp
  have "int (unat pc) = uint pc" by simp
  with small have "int (unat pc) < int (2 ^ 16)" by simp
  then have "unat pc < 2 ^ 16" by (simp only: of_nat_less_iff)
  then have "fls (unat pc) \<le> 16" by (rule fls_le_16)
  then have e: "calc_prescaler pc = 0" by (simp add: calc_prescaler_eq)
  from small have cv: "count_value pc 0 = pc" by (rule count_value_0_small)
  have regs: "fst (cadence_pwm_config c h duty_ns period_ns) = Inr () \<and>
      cpwm_read (snd (cadence_pwm_config c h duty_ns period_ns)) h CPWM_CLK_CTRL
        AND (CPWM_CLK_PRESCALE_ENABLE OR CPWM_CLK_PRESCALE_MASK) = 0 \<and>
      cpwm_read (snd (cadence_pwm_config c h duty_ns period_ns)) h CPWM_INTERVAL_COUNTER = pc \<and>
      uint (cpwm_read (snd (cadence_pwm_config c h duty_ns period_ns)) h
              CPWM_INTERVAL_COUNTER) = q"
    if ok: "clk_enable_errno (clk (pwms c ! h)) = 0"
    using e cv u
    by (simp add: config_ok(1) [OF assms(1) ok n] config_read [OF assms(1) ok n]
          clk_ctrl_value_no_prescale pc_def [symmetric] rate_def [symmetric])
  from s e u regs show ?thesis
    by (simp add: clk_get_rate_def pc_def [symmetric] rate_def [symmetric] q_def [symmetric])
qed

theorem config_zero_prescaler_witness:
  "valid_channel example_chip 0 \<and> clk_enable_errno (clk (pwms example_chip ! 0)) = 0 \<and>
   0 \<le> sint (1000000 :: u32) \<and>
   sint (1000000 :: u32) * uint (clk_get_rate (clk (pwms example_chip ! 0))) div 1000000000
     = 50000 \<and>
   calc_prescaler (ns_to_clocks 1000000 (clk_get_rate (clk (pwms example_chip ! 0)))) = 0 \<and>
   fst (cadence_pwm_config example_chip 0 500000 1000000) = Inr () \<and>
   cpwm_read (snd (cadence_pwm_config example_chip 0 500000 1000000)) 0 CPWM_CLK_CTRL
     AND (CPWM_CLK_PRESCALE_ENABLE OR CPWM_CLK_PRESCALE_MASK) = 0 \<and>
   uint (cpwm_read (snd (cadence_pwm_config example_chip 0 500000 1000000)) 0
           CPWM_INTERVAL_COUNTER) = 50000"
proof -
  have v: "valid_channel example_chip 0" by (simp add: example_defs)
  have e: "clk_enable_errno (clk (pwms example_chip ! 0)) = 0" by (simp add: example_defs)
  have p: "0 \<le> sint (1000000 :: u32)" by simp
  have q: "sint (1000000 :: u32) * uint (clk_get_rate (clk (pwms example_chip ! 0)))
             div 1000000000 = 50000"
    by (simp add: example_defs clk_get_rate_def)
  then have q': "sint (1000000 :: u32) * uint (clk_get_rate (clk (pwms example_chip ! 0)))
             div 1000000000 \<le> 65535" by simp
  from config_zero_prescaler [OF v p q', of 500000] e
  have a: "calc_prescaler (ns_to_clocks 1000000 (clk_get_rate (clk (pwms example_chip ! 0)))) = 0"
    and f: "fst (cadence_pwm_config example_chip 0 500000 1000000) = Inr ()"
    and b: "cpwm_read (snd (cadence_pwm_config example_chip 0 500000 1000000)) 0 CPWM_CLK_CTRL
              AND (CPWM_CLK_PRESCALE_ENABLE OR CPWM_CLK_PRESCALE_MASK) = 0"
    and d: "uint (cpwm_read (snd (cadence_pwm_config example_chip 0 500000 1000000)) 0
                    CPWM_INTERVAL_COUNTER) =
            sint (1000000 :: u32) * uint (clk_get_rate (clk (pwms example_chip ! 0)))
              div 1000000000"
    by blast+
  from d q have d': "uint (cpwm_read (snd (cadence_pwm_config example_chip 0 500000 1000000)) 0
                    CPWM_INTERVAL_COUNTER) = 50000" by (simp only:)
  from v e p q a f b d' show ?thesis by blast
qed

text \<open>
  C8. For every channel and every register state, disabling twice leaves the registers
  as disabling once does: the counter-control register has the counting-disabled and
  waveform-disable bits set and its other bits, and every other register, unchanged.
\<close>

theorem disable_idempotent:
  assumes "valid_channel c h"
  shows "regs (cadence_pwm_disable (cadence_pwm_disable c h) h) =
           regs (cadence_pwm_disable c h) \<and>
         regs (cadence_pwm_disable c h) =
           (regs c)(cpwm_register_address h CPWM_COUNTER_CTRL :=
              cpwm_read c h CPWM_COUNTER_CTRL OR
                (CPWM_COUNTER_CTRL_COUNTING_DISABLE OR CPWM_COUNTER_CTRL_WAVE_DISABLE))"
  by (simp add: cadence_pwm_disable_def Let_def regs_set_clk regs_cpwm_write cpwm_read_def
        or.right_idem)

theorem disable_idempotent_witness:
  "valid_channel example_chip 0 \<and>
   regs (cadence_pwm_disable (cadence_pwm_disable example_chip 0) 0) =
     regs (cadence_pwm_disable example_chip 0) \<and>
   cpwm_read (cadence_pwm_disable example_chip 0) 0 CPWM_COUNTER_CTRL = 0x21"
proof -
  have v: "valid_channel example_chip 0" by (simp add: example_defs)
  from disable_idempotent [OF v] v show ?thesis
    by (simp add: cpwm_read_def example_chip_def cpwm_consts)
qed

section \<open>What configure does not do\<close>

text \<open>
  C9. When configure is called with a negative \<open>period_ns\<close> and the channel clock
  enables, the call fails with \<open>InvalidArgument\<close> and the clock stays enabled: its
  enable count is one more than before the call.
\<close>

theorem config_invalid_leaves_clock_enabled:
  assumes "valid_channel c h" and "clk_enable_errno (clk (pwms c ! h)) = 0"
    and "period_ns <s 0"
  shows "fst (cadence_pwm_config c h duty_ns period_ns) = Inl InvalidArgument \<and>
         clk_enable_count (clk (pwms (snd (cadence_pwm_config c h duty_ns period_ns)) ! h)) =
           clk_enable_count (clk (pwms c ! h)) + 1"
proof -
  from assms(1) have "h < length (pwms c)" by (simp add: valid_channel_def)
  with config_invalid [OF assms(2,3)] show ?thesis by (simp add: pwms_set_clk)
qed

theorem config_invalid_leaves_clock_enabled_witness:
  "valid_channel example_chip 2 \<and> clk_enable_errno (clk (pwms example_chip ! 2)) = 0 \<and>
   (- 5 :: u32) <s 0 \<and>
   clk_enable_count (clk (pwms example_chip ! 2)) = 0 \<and>
   fst (cadence_pwm_config example_chip 2 0 (- 5)) = Inl InvalidArgument \<and>
   clk_enable_count (clk (pwms (snd (cadence_pwm_config example_chip 2 0 (- 5))) ! 2)) = 1"
proof -
  have v: "valid_channel example_chip 2" by (simp add: example_defs)
  have e: "clk_enable_errno (clk (pwms example_chip ! 2)) = 0" by (simp add: example_defs)
  have n: "(- 5 :: u32) <s 0" by (simp add: word_sless_alt)
  have z: "clk_enable_count (clk (pwms example_chip ! 2)) = 0" by (simp add: example_defs)
  from config_invalid_leaves_clock_enabled [OF v e n, of 0] v e n z show ?thesis by simp
qed

text \<open>
  C10. Configure does not compare \<open>duty_ns\<close> with \<open>period_ns\<close>: it succeeds exactly
  when the clock enables and \<open>period_ns\<close> is not negative, whatever \<open>duty_ns\<close> is, and
  then the match-1 register holds \<^verbatim>\<open>(duty_clocks >> prescaler) & 0xffff\<close>, which may
  exceed the interval count.
\<close>

theorem config_no_duty_validation:
  assumes "valid_channel c h"
  shows "(fst (cadence_pwm_config c h duty_ns period_ns) = Inr () \<longleftrightarrow>
            clk_enable_errno (clk (pwms c ! h)) = 0 \<and> \<not> period_ns <s 0) \<and>
         (clk_enable_errno (clk (pwms c ! h)) = 0 \<and> \<not> period_ns <s 0 \<longrightarrow>
            cpwm_read (snd (cadence_pwm_config c h duty_ns period_ns)) h CPWM_MATCH_1_COUNTER =
              signed_drop_bit
                (nat (calc_prescaler
                        (ns_to_clocks period_ns (clk_get_rate (clk (pwms c ! h))))))
                (ns_to_clocks duty_ns (clk_get_rate (clk (pwms c ! h)))) AND 0xffff)"
proof (cases "clk_enable_errno (clk (pwms c ! h)) = 0")
  case False
  from config_clk_fail [OF False] False show ?thesis by simp
next
  case True
  show ?thesis
  proof (cases "period_ns <s 0")
    case neg: True
    from config_invalid [OF True neg] True neg show ?thesis by simp
  next
    case nonneg: False
    from config_ok(1) [OF assms True nonneg] config_read(4) [OF assms True nonneg]
      True nonneg
    show ?thesis by (simp add: count_value_def clk_get_rate_def)
  qed
qed

theorem config_no_duty_validation_witness:
  "valid_channel example_chip 0 \<and> clk_enable_errno (clk (pwms example_chip ! 0)) = 0 \<and>
   \<not> (20000000 :: u32) <s 0 \<and> (20000000 :: u32) <s 20480000 \<and>
   fst (cadence_pwm_config example_chip 0 20480000 20000000) = Inr () \<and>
   cpwm_read (snd (cadence_pwm_config example_chip 0 20480000 20000000)) 0
     CPWM_MATCH_1_COUNTER = 64000 \<and>
   cpwm_read (snd (cadence_pwm_config example_chip 0 20480000 20000000)) 0
     CPWM_INTERVAL_COUNTER = 62500"
proof -
  have v: "valid_channel example_chip 0" by (simp add: example_defs)
  have e: "clk_enable_errno (clk (pwms example_chip ! 0)) = 0" by (simp add: example_defs)
  have n: "\<not> (20000000 :: u32) <s 0" by (simp add: word_sless_alt)
  have d: "(20000000 :: u32) <s 20480000" by (simp add: word_sless_alt)
  have r: "clk_get_rate (clk (pwms example_chip ! 0)) = 50000000"
    by (simp add: example_defs clk_get_rate_def)
  have r': "clk_rate (clk (pwms example_chip ! 0)) = 50000000"
    by (simp add: example_defs)
  have i: "cpwm_read (snd (cadence_pwm_config example_chip 0 20480000 20000000)) 0
     CPWM_INTERVAL_COUNTER = 62500"
    by (simp add: config_read(3) [OF v e n] r' servo_clocks)
  have m: "signed_drop_bit (nat (calc_prescaler (ns_to_clocks 20000000 50000000)))
             (ns_to_clocks 20480000 50000000) AND 0xffff = (64000 :: u32)"
    by (simp add: ns_to_clocks_def ns_to_clocks64_def calc_prescaler_def ilog2_def fls_num)
  from config_no_duty_validation [OF v, of 20480000 20000000] v e n d i m r
  show ?thesis by simp
qed

end
